theory Spec2Isabelle
  imports Main
begin

section \<open>Texts, exceptions and dictionaries\<close>

text \<open>
  The program is \<^verbatim>\<open>Home_task_8.py\<close>, a command-line contact book. A Python \<^verbatim>\<open>str\<close> is a
  sequence of Unicode code points: a list of numbers. A text of the program is written
  \<open>str ''...''\<close>.
\<close>

type_synonym pystr = "nat list"

definition ord :: "char \<Rightarrow> nat" where
  "ord c = of_char c"

definition str :: "string \<Rightarrow> pystr" where
  "str s = map ord s"

datatype exn = ValueError pystr | OverflowError pystr

datatype io_exn = FileNotFoundError | UnpicklingError | OSError

text \<open>\<^verbatim>\<open>str(e)\<close> of an exception raised with one text argument is that text.\<close>

fun str_exn :: "exn \<Rightarrow> pystr" where
  "str_exn (ValueError m) = m"
| "str_exn (OverflowError m) = m"

text \<open>
  A Python \<^verbatim>\<open>dict\<close> keeps insertion order and has no key twice; assigning to a key that
  is present keeps the key's position, and a new key goes to the end: an association
  list, updated at the entry of the key.
\<close>

primrec dict_set :: "'k \<Rightarrow> 'v \<Rightarrow> ('k \<times> 'v) list \<Rightarrow> ('k \<times> 'v) list" where
  "dict_set k v [] = [(k, v)]"
| "dict_set k v (p # ps) = (if fst p = k then (k, v) # ps else p # dict_set k v ps)"

definition dict_get :: "('k \<times> 'v) list \<Rightarrow> 'k \<Rightarrow> 'v option" where
  "dict_get d k = map_of d k"

subsection \<open>Digits\<close>

text \<open>
  The Unicode character database, version 14.0.0, as the \<^verbatim>\<open>unicodedata\<close> module of
  CPython 3.11 has it. \<open>Nd_ranges\<close> are the code points of general category Nd, the
  decimal digits: each range is one or more runs of the ten digits from zero to nine.
  \<open>Digit_ranges\<close> are the code points whose numeric type is Digit and whose category is
  not Nd, such as the superscript two.
\<close>

definition Nd_ranges :: "(nat \<times> nat) list" where
  "Nd_ranges =
    [(0x30, 0x39), (0x660, 0x669), (0x6F0, 0x6F9), (0x7C0, 0x7C9), (0x966, 0x96F),
     (0x9E6, 0x9EF), (0xA66, 0xA6F), (0xAE6, 0xAEF), (0xB66, 0xB6F), (0xBE6, 0xBEF),
     (0xC66, 0xC6F), (0xCE6, 0xCEF), (0xD66, 0xD6F), (0xDE6, 0xDEF), (0xE50, 0xE59),
     (0xED0, 0xED9), (0xF20, 0xF29), (0x1040, 0x1049), (0x1090, 0x1099), (0x17E0, 0x17E9),
     (0x1810, 0x1819), (0x1946, 0x194F), (0x19D0, 0x19D9), (0x1A80, 0x1A89),
     (0x1A90, 0x1A99), (0x1B50, 0x1B59), (0x1BB0, 0x1BB9), (0x1C40, 0x1C49),
     (0x1C50, 0x1C59), (0xA620, 0xA629), (0xA8D0, 0xA8D9), (0xA900, 0xA909),
     (0xA9D0, 0xA9D9), (0xA9F0, 0xA9F9), (0xAA50, 0xAA59), (0xABF0, 0xABF9),
     (0xFF10, 0xFF19), (0x104A0, 0x104A9), (0x10D30, 0x10D39), (0x11066, 0x1106F),
     (0x110F0, 0x110F9), (0x11136, 0x1113F), (0x111D0, 0x111D9), (0x112F0, 0x112F9),
     (0x11450, 0x11459), (0x114D0, 0x114D9), (0x11650, 0x11659), (0x116C0, 0x116C9),
     (0x11730, 0x11739), (0x118E0, 0x118E9), (0x11950, 0x11959), (0x11C50, 0x11C59),
     (0x11D50, 0x11D59), (0x11DA0, 0x11DA9), (0x16A60, 0x16A69), (0x16AC0, 0x16AC9),
     (0x16B50, 0x16B59), (0x1D7CE, 0x1D7FF), (0x1E140, 0x1E149), (0x1E2F0, 0x1E2F9),
     (0x1E950, 0x1E959), (0x1FBF0, 0x1FBF9)]"

definition Digit_ranges :: "(nat \<times> nat) list" where
  "Digit_ranges =
    [(0xB2, 0xB3), (0xB9, 0xB9), (0x1369, 0x1371), (0x19DA, 0x19DA), (0x2070, 0x2070),
     (0x2074, 0x2079), (0x2080, 0x2089), (0x2460, 0x2468), (0x2474, 0x247C),
     (0x2488, 0x2490), (0x24EA, 0x24EA), (0x24F5, 0x24FD), (0x24FF, 0x24FF),
     (0x2776, 0x277E), (0x2780, 0x2788), (0x278A, 0x2792), (0x10A40, 0x10A43),
     (0x10E60, 0x10E68), (0x11052, 0x1105A), (0x1F100, 0x1F10A)]"

definition in_range :: "nat \<Rightarrow> nat \<Rightarrow> nat \<Rightarrow> bool" where
  "in_range lo hi c = (lo \<le> c \<and> c \<le> hi)"

definition in_ranges :: "(nat \<times> nat) list \<Rightarrow> nat \<Rightarrow> bool" where
  "in_ranges rs c = list_ex (\<lambda>r. in_range (fst r) (snd r) c) rs"

text \<open>The value of a decimal digit, \<open>None\<close> for any other code point.\<close>

definition decimal_value :: "nat \<Rightarrow> nat option" where
  "decimal_value c =
     (case find (\<lambda>r. in_range (fst r) (snd r) c) Nd_ranges of
        None \<Rightarrow> None
      | Some r \<Rightarrow> Some ((c - fst r) mod 10))"

definition unicode_decimal :: "nat \<Rightarrow> bool" where
  "unicode_decimal c = (decimal_value c \<noteq> None)"

definition ascii_digit :: "nat \<Rightarrow> bool" where
  "ascii_digit c = in_range (ord (CHR ''0'')) (ord (CHR ''9'')) c"

text \<open>A digit in the sense of \<^verbatim>\<open>str.isdigit\<close>: numeric type Decimal or Digit.\<close>

definition unicode_digit :: "nat \<Rightarrow> bool" where
  "unicode_digit c = (unicode_decimal c \<or> in_ranges Digit_ranges c)"

text \<open>\<^verbatim>\<open>str.isdigit()\<close>: at least one character, and every character is a digit.\<close>

definition isdigit :: "pystr \<Rightarrow> bool" where
  "isdigit s = (s \<noteq> [] \<and> list_all unicode_digit s)"

text \<open>\<^verbatim>\<open>sep.join(xs)\<close>.\<close>

fun join :: "pystr \<Rightarrow> pystr list \<Rightarrow> pystr" where
  "join sep [] = []"
| "join sep [x] = x"
| "join sep (x # y # ys) = x @ sep @ join sep (y # ys)"

section \<open>Fields\<close>

record Field =
  value' :: pystr

type_synonym Name = Field
type_synonym Phone = Field
type_synonym Birthday = Field

text \<open>A constructor call either returns the new object or raises.\<close>

definition Field_init :: "pystr \<Rightarrow> exn + Field" where
  "Field_init v = Inr \<lparr>value' = v\<rparr>"

definition Name_init :: "pystr \<Rightarrow> exn + Name" where
  "Name_init v = Field_init v"

definition Phone_init :: "pystr \<Rightarrow> exn + Phone" where
  "Phone_init v =
     (if \<not> isdigit v \<or> length v \<noteq> 10
      then Inl (ValueError (str ''Phone number must be 10 digits.''))
      else Field_init v)"

section \<open>Dates\<close>

text \<open>
  The date arithmetic of the \<^verbatim>\<open>datetime\<close> module: the proleptic Gregorian calendar
  with years 1 to 9999. A \<^verbatim>\<open>datetime\<close> value is held as its day number
  (\<^verbatim>\<open>toordinal()\<close>, day 1 is 0001-01-01) and the microseconds elapsed since midnight;
  comparing two values compares these lexicographically, as comparing year, month, day,
  hour, minute, second and microsecond does.
\<close>

definition is_leap :: "nat \<Rightarrow> bool" where
  "is_leap year = (year mod 4 = 0 \<and> (year mod 100 \<noteq> 0 \<or> year mod 400 = 0))"

definition DAYS_IN_MONTH :: "nat list" where
  "DAYS_IN_MONTH = [0, 31, 28, 31, 30, 31, 30, 31, 31, 30, 31, 30, 31]"

definition DAYS_BEFORE_MONTH :: "nat list" where
  "DAYS_BEFORE_MONTH = [0, 0, 31, 59, 90, 120, 151, 181, 212, 243, 273, 304, 334]"

definition days_in_month :: "nat \<Rightarrow> nat \<Rightarrow> nat" where
  "days_in_month year month =
     (if month = 2 \<and> is_leap year then 29 else DAYS_IN_MONTH ! month)"

definition days_before_year :: "nat \<Rightarrow> nat" where
  "days_before_year year =
     (let y = year - 1 in y * 365 + y div 4 - y div 100 + y div 400)"

definition days_before_month :: "nat \<Rightarrow> nat \<Rightarrow> nat" where
  "days_before_month year month =
     DAYS_BEFORE_MONTH ! month + (if month > 2 \<and> is_leap year then 1 else 0)"

definition ymd2ord :: "nat \<Rightarrow> nat \<Rightarrow> nat \<Rightarrow> nat" where
  "ymd2ord year month day = days_before_year year + days_before_month year month + day"

definition MINYEAR :: nat where "MINYEAR = 1"
definition MAXYEAR :: nat where "MAXYEAR = 9999"
definition MAXORDINAL :: nat where "MAXORDINAL = 3652059"

text \<open>The range checks of the \<^verbatim>\<open>date\<close> constructor; outside them it raises ValueError.\<close>

definition check_date_fields :: "nat \<Rightarrow> nat \<Rightarrow> nat \<Rightarrow> bool" where
  "check_date_fields year month day =
     (MINYEAR \<le> year \<and> year \<le> MAXYEAR \<and> 1 \<le> month \<and> month \<le> 12 \<and>
      1 \<le> day \<and> day \<le> days_in_month year month)"

record datetime =
  ordinal :: nat
  micros :: nat

definition dt_le :: "datetime \<Rightarrow> datetime \<Rightarrow> bool" where
  "dt_le a b = (ordinal a < ordinal b \<or> (ordinal a = ordinal b \<and> micros a \<le> micros b))"

text \<open>\<^verbatim>\<open>datetime(year, month, day, hour, minute, second, microsecond)\<close>, for fields in range.\<close>

definition mk_datetime :: "nat \<Rightarrow> nat \<Rightarrow> nat \<Rightarrow> nat \<Rightarrow> nat \<Rightarrow> nat \<Rightarrow> nat \<Rightarrow> datetime" where
  "mk_datetime year month day hour minute second microsecond =
     \<lparr>ordinal = ymd2ord year month day,
      micros = ((hour * 60 + minute) * 60 + second) * 1000000 + microsecond\<rparr>"

text \<open>\<^verbatim>\<open>dt + timedelta(days=n)\<close>: OverflowError when the result is after 9999-12-31.\<close>

definition add_days :: "datetime \<Rightarrow> nat \<Rightarrow> exn + datetime" where
  "add_days dt n =
     (if ordinal dt + n \<le> MAXORDINAL then Inr (dt\<lparr>ordinal := ordinal dt + n\<rparr>)
      else Inl (OverflowError (str ''date value out of range'')))"

section \<open>Parsing a date with strptime\<close>

text \<open>
  \<^verbatim>\<open>datetime.strptime(value, '%d.%m.%Y')\<close> turns the format into the regular expression
  \<^verbatim>\<open>(?P<d>3[0-1]|[1-2]\d|0[1-9]|[1-9]| [1-9])\.(?P<m>1[0-2]|0[1-9]|[1-9])\.(?P<Y>\d\d\d\d)\<close>,
  matches it at the start of the text, raises ValueError when there is no match or when
  text remains after the match, converts the three groups with \<^verbatim>\<open>int\<close> and builds the
  date, which raises ValueError for a date that does not exist.

  The matcher below is the backtracking one of \<^verbatim>\<open>re\<close>: it returns the remainders of the
  text after every way of matching, the preferred way first. On a \<^verbatim>\<open>str\<close> the class
  \<^verbatim>\<open>\d\<close> is any decimal digit of Unicode; a class such as \<^verbatim>\<open>[1-9]\<close> is a range of code
  points.
\<close>

datatype re = Lit nat | Range nat nat | Digit | Seq re re | Alt re re

fun matches :: "re \<Rightarrow> pystr \<Rightarrow> pystr list" where
  "matches (Lit c) s = (case s of [] \<Rightarrow> [] | x # r \<Rightarrow> if x = c then [r] else [])"
| "matches (Range lo hi) s = (case s of [] \<Rightarrow> [] | x # r \<Rightarrow> if in_range lo hi x then [r] else [])"
| "matches Digit s = (case s of [] \<Rightarrow> [] | x # r \<Rightarrow> if unicode_decimal x then [r] else [])"
| "matches (Seq a b) s = concat (map (matches b) (matches a s))"
| "matches (Alt a b) s = matches a s @ matches b s"

definition re_d :: re where
  "re_d = Alt (Seq (Lit (ord (CHR ''3''))) (Range (ord (CHR ''0'')) (ord (CHR ''1''))))
         (Alt (Seq (Range (ord (CHR ''1'')) (ord (CHR ''2''))) Digit)
         (Alt (Seq (Lit (ord (CHR ''0''))) (Range (ord (CHR ''1'')) (ord (CHR ''9''))))
         (Alt (Range (ord (CHR ''1'')) (ord (CHR ''9'')))
              (Seq (Lit (ord (CHR '' ''))) (Range (ord (CHR ''1'')) (ord (CHR ''9'')))))))"

definition re_m :: re where
  "re_m = Alt (Seq (Lit (ord (CHR ''1''))) (Range (ord (CHR ''0'')) (ord (CHR ''2''))))
         (Alt (Seq (Lit (ord (CHR ''0''))) (Range (ord (CHR ''1'')) (ord (CHR ''9''))))
              (Range (ord (CHR ''1'')) (ord (CHR ''9''))))"

definition re_Y :: re where
  "re_Y = Seq Digit (Seq Digit (Seq Digit Digit))"

text \<open>The text that a match consumed, given the text before and the remainder after.\<close>

definition consumed :: "pystr \<Rightarrow> pystr \<Rightarrow> pystr" where
  "consumed s r = take (length s - length r) s"

text \<open>
  All matches of the whole pattern, the preferred first: the groups \<^verbatim>\<open>d\<close>, \<^verbatim>\<open>m\<close>,
  \<^verbatim>\<open>Y\<close> and the unconverted remainder.
\<close>

definition format_matches :: "pystr \<Rightarrow> (pystr \<times> pystr \<times> pystr \<times> pystr) list" where
  "format_matches s =
     concat (map (\<lambda>r1.
       concat (map (\<lambda>r2.
         concat (map (\<lambda>r3.
           concat (map (\<lambda>r4.
             map (\<lambda>r5. (consumed s r1, consumed r2 r3, consumed r4 r5, r5))
               (matches re_Y r4))
             (matches (Lit (ord (CHR ''.''))) r3)))
           (matches re_m r2)))
         (matches (Lit (ord (CHR ''.''))) r1)))
       (matches re_d s))"

text \<open>
  \<^verbatim>\<open>int(text)\<close>: the number that the decimal digits of the text write, of whatever
  script, after the blanks at its start; ValueError, here \<open>None\<close>, when a character is
  not a decimal digit or there is none. (Of the white space that \<^verbatim>\<open>int\<close> strips, a group
  of the pattern can only hold a blank at its start.)
\<close>

fun digits_value :: "nat \<Rightarrow> pystr \<Rightarrow> nat option" where
  "digits_value n [] = Some n"
| "digits_value n (c # cs) =
     (case decimal_value c of None \<Rightarrow> None | Some v \<Rightarrow> digits_value (10 * n + v) cs)"

definition int_of_text :: "pystr \<Rightarrow> nat option" where
  "int_of_text s =
     (case dropWhile (\<lambda>c. c = ord (CHR '' '')) s of
        [] \<Rightarrow> None
      | t \<Rightarrow> digits_value 0 t)"

text \<open>The result \<open>None\<close> stands for the ValueError that strptime raises.\<close>

definition strptime :: "pystr \<Rightarrow> datetime option" where
  "strptime data_string =
     (case format_matches data_string of
        [] \<Rightarrow> None
      | (d, m, Y, rest) # _ \<Rightarrow>
          if rest \<noteq> [] then None
          else
            (case (int_of_text Y, int_of_text m, int_of_text d) of
               (Some year, Some month, Some day) \<Rightarrow>
                 if check_date_fields year month day
                 then Some \<lparr>ordinal = ymd2ord year month day, micros = 0\<rparr>
                 else None
             | _ \<Rightarrow> None))"

definition Birthday_init :: "pystr \<Rightarrow> exn + Birthday" where
  "Birthday_init v =
     (case strptime v of
        None \<Rightarrow> Inl (ValueError (str ''Invalid date format. Use DD.MM.YYYY''))
      | Some _ \<Rightarrow> Field_init v)"

section \<open>Records\<close>

record Record =
  name :: Name
  phones :: "Phone list"
  birthday :: "Birthday option"

definition Record_init :: "pystr \<Rightarrow> exn + Record" where
  "Record_init name_text =
     (case Name_init name_text of
        Inl e \<Rightarrow> Inl e
      | Inr n \<Rightarrow> Inr \<lparr>name = n, phones = [], birthday = None\<rparr>)"

text \<open>The methods \<^verbatim>\<open>Record.add_phone\<close> and \<^verbatim>\<open>Record.add_birthday\<close>.\<close>

definition Record_add_phone :: "Record \<Rightarrow> pystr \<Rightarrow> exn + Record" where
  "Record_add_phone self phone =
     (case Phone_init phone of
        Inl e \<Rightarrow> Inl e
      | Inr p \<Rightarrow> Inr (self\<lparr>phones := phones self @ [p]\<rparr>))"

definition Record_add_birthday :: "Record \<Rightarrow> pystr \<Rightarrow> exn + Record" where
  "Record_add_birthday self birthday_text =
     (case Birthday_init birthday_text of
        Inl e \<Rightarrow> Inl e
      | Inr b \<Rightarrow> Inr (self\<lparr>birthday := Some b\<rparr>))"

section \<open>The address book\<close>

record AddressBook =
  records :: "(pystr \<times> Record) list"

definition AddressBook_init :: AddressBook where
  "AddressBook_init = \<lparr>records = []\<rparr>"

definition add_record :: "AddressBook \<Rightarrow> Record \<Rightarrow> AddressBook" where
  "add_record self record = self\<lparr>records := dict_set (value' (name record)) record (records self)\<rparr>"

definition find' :: "AddressBook \<Rightarrow> pystr \<Rightarrow> Record option" where
  "find' self name_text = dict_get (records self) name_text"

definition get_all_records :: "AddressBook \<Rightarrow> Record list" where
  "get_all_records self = map snd (records self)"

text \<open>
  A record is an object that the dictionary refers to: a method that changes a record
  obtained from \<^verbatim>\<open>find\<close> changes the record held under that key.
\<close>

definition store_record :: "AddressBook \<Rightarrow> pystr \<Rightarrow> Record \<Rightarrow> AddressBook" where
  "store_record self key record = self\<lparr>records := dict_set key record (records self)\<rparr>"

subsection \<open>Pickling\<close>

text \<open>
  \<^verbatim>\<open>pickle.dump\<close> writes an instance of a class as the name of its class and the
  dictionary of its attributes, a \<^verbatim>\<open>dict\<close> as its items in order, a \<^verbatim>\<open>list\<close> as its
  elements in order, a \<^verbatim>\<open>str\<close> as its code points and \<^verbatim>\<open>None\<close> as itself.
  \<^verbatim>\<open>pickle.load\<close> builds each instance again from the class name and the attributes; it
  does not call \<^verbatim>\<open>__init__\<close>, so nothing is validated again. The program never looks at
  the bytes of the stream: a file that \<^verbatim>\<open>pickle.dump\<close> wrote is held as the object
  written to it, any other file as its bytes.
\<close>

datatype pyobj =
    PyNone
  | PyStr pystr
  | PyList "pyobj list"
  | PyDict "(pyobj \<times> pyobj) list"
  | PyInstance pystr "(pystr \<times> pyobj) list"

datatype file_content = Pickle pyobj | Bytes "nat list"

definition Field_reduce :: "string \<Rightarrow> Field \<Rightarrow> pyobj" where
  "Field_reduce cls self = PyInstance (str cls) [(str ''value'', PyStr (value' self))]"

definition Record_reduce :: "Record \<Rightarrow> pyobj" where
  "Record_reduce self =
     PyInstance (str ''Record'')
       [(str ''name'', Field_reduce ''Name'' (name self)),
        (str ''phones'', PyList (map (Field_reduce ''Phone'') (phones self))),
        (str ''birthday'',
           (case birthday self of None \<Rightarrow> PyNone | Some b \<Rightarrow> Field_reduce ''Birthday'' b))]"

definition AddressBook_reduce :: "AddressBook \<Rightarrow> pyobj" where
  "AddressBook_reduce self =
     PyInstance (str ''AddressBook'')
       [(str ''records'',
           PyDict (map (\<lambda>item. (PyStr (fst item), Record_reduce (snd item))) (records self)))]"

definition pickle_dump :: "AddressBook \<Rightarrow> file_content" where
  "pickle_dump obj = Pickle (AddressBook_reduce obj)"

text \<open>
  Reading a pickled object as an address book. \<open>None\<close> when the object is not an address
  book of records of fields: the book type has no place for such an object.
\<close>

definition Field_rebuild :: "string \<Rightarrow> pyobj \<Rightarrow> Field option" where
  "Field_rebuild cls obj =
     (case obj of
        PyInstance c [(a, PyStr v)] \<Rightarrow>
          if c = str cls \<and> a = str ''value'' then Some \<lparr>value' = v\<rparr> else None
      | _ \<Rightarrow> None)"

definition Birthday_rebuild :: "pyobj \<Rightarrow> Birthday option option" where
  "Birthday_rebuild obj =
     (case obj of
        PyNone \<Rightarrow> Some None
      | _ \<Rightarrow> (case Field_rebuild ''Birthday'' obj of None \<Rightarrow> None | Some b \<Rightarrow> Some (Some b)))"

definition Record_rebuild :: "pyobj \<Rightarrow> Record option" where
  "Record_rebuild obj =
     (case obj of
        PyInstance c [(a1, n), (a2, PyList ps), (a3, b)] \<Rightarrow>
          if c = str ''Record'' \<and> a1 = str ''name'' \<and> a2 = str ''phones'' \<and> a3 = str ''birthday''
          then (case (Field_rebuild ''Name'' n, those (map (Field_rebuild ''Phone'') ps),
                      Birthday_rebuild b) of
                  (Some n', Some ps', Some b') \<Rightarrow> Some \<lparr>name = n', phones = ps', birthday = b'\<rparr>
                | _ \<Rightarrow> None)
          else None
      | _ \<Rightarrow> None)"

definition item_rebuild :: "pyobj \<times> pyobj \<Rightarrow> (pystr \<times> Record) option" where
  "item_rebuild item =
     (case item of
        (PyStr k, v) \<Rightarrow> (case Record_rebuild v of None \<Rightarrow> None | Some r \<Rightarrow> Some (k, r))
      | _ \<Rightarrow> None)"

definition AddressBook_rebuild :: "pyobj \<Rightarrow> AddressBook option" where
  "AddressBook_rebuild obj =
     (case obj of
        PyInstance c [(a, PyDict items)] \<Rightarrow>
          if c = str ''AddressBook'' \<and> a = str ''records''
          then (case those (map item_rebuild items) of
                  None \<Rightarrow> None
                | Some rs \<Rightarrow> Some \<lparr>records = rs\<rparr>)
          else None
      | _ \<Rightarrow> None)"

definition pickle_load :: "file_content \<Rightarrow> io_exn + AddressBook" where
  "pickle_load f =
     (case f of
        Pickle obj \<Rightarrow>
          (case AddressBook_rebuild obj of None \<Rightarrow> Inl UnpicklingError | Some book \<Rightarrow> Inr book)
      | Bytes _ \<Rightarrow> Inl UnpicklingError)"

subsection \<open>Saving and loading\<close>

text \<open>
  The file system is a map from file names to contents. Whether a name can be opened
  for writing is for the operating system to say: \<open>can_write\<close>. Opening for writing
  creates the file or empties it; opening a name that has no file for reading raises
  FileNotFoundError. The functions that pickle and unpickle are parameters of saving
  and loading, \<open>pickle_dump\<close> and \<open>pickle_load\<close> in the program.
\<close>

type_synonym filesystem = "pystr \<Rightarrow> file_content option"

definition open_wb :: "(pystr \<Rightarrow> bool) \<Rightarrow> filesystem \<Rightarrow> pystr \<Rightarrow> io_exn + filesystem" where
  "open_wb can_write fs filename =
     (if can_write filename then Inr (fs(filename \<mapsto> Bytes [])) else Inl OSError)"

definition save_to_file ::
  "(pystr \<Rightarrow> bool) \<Rightarrow> (AddressBook \<Rightarrow> file_content) \<Rightarrow> AddressBook \<Rightarrow> pystr \<Rightarrow> filesystem
     \<Rightarrow> io_exn + filesystem" where
  "save_to_file can_write dumps self filename fs =
     (case open_wb can_write fs filename of
        Inl e \<Rightarrow> Inl e
      | Inr fs' \<Rightarrow> Inr (fs'(filename \<mapsto> dumps self)))"

definition open_rb :: "filesystem \<Rightarrow> pystr \<Rightarrow> io_exn + file_content" where
  "open_rb fs filename = (case fs filename of None \<Rightarrow> Inl FileNotFoundError | Some b \<Rightarrow> Inr b)"

definition load_from_file ::
  "(file_content \<Rightarrow> io_exn + AddressBook) \<Rightarrow> filesystem \<Rightarrow> pystr \<Rightarrow> io_exn + AddressBook" where
  "load_from_file loads fs filename =
     (case (case open_rb fs filename of Inl e \<Rightarrow> Inl e | Inr f \<Rightarrow> loads f) of
        Inl FileNotFoundError \<Rightarrow> Inr AddressBook_init
      | Inl e \<Rightarrow> Inl e
      | Inr book \<Rightarrow> Inr book)"

section \<open>Command handlers\<close>

text \<open>
  A handler takes the argument list and the book and returns its result together with
  the book as it has left it: an exception leaves the changes made before it in place.
  The decorator \<^verbatim>\<open>input_error\<close> turns an exception into its text.
\<close>

type_synonym handler = "pystr list \<Rightarrow> AddressBook \<Rightarrow> (exn + pystr) \<times> AddressBook"

definition input_error :: "handler \<Rightarrow> pystr list \<Rightarrow> AddressBook \<Rightarrow> pystr \<times> AddressBook" where
  "input_error func args book =
     (case func args book of
        (Inr result, book') \<Rightarrow> (result, book')
      | (Inl e, book') \<Rightarrow> (str_exn e, book'))"

text \<open>
  Unpacking \<^verbatim>\<open>a, b, *_ = args\<close> from too short a list raises ValueError. The counts
  in its text are below ten here.
\<close>

definition not_enough_values :: "nat \<Rightarrow> nat \<Rightarrow> exn" where
  "not_enough_values expected got =
     ValueError (str ''not enough values to unpack (expected at least '' @ [ord (CHR ''0'') + expected]
                 @ str '', got '' @ [ord (CHR ''0'') + got] @ str '')'')"

fun add_birthday_body :: handler where
  "add_birthday_body (name_text # birthday_text # _) book =
     (case find' book name_text of
        Some record \<Rightarrow>
          (case Record_add_birthday record birthday_text of
             Inl e \<Rightarrow> (Inl e, book)
           | Inr record' \<Rightarrow>
               (Inr (str ''Birthday added for '' @ name_text @ str ''.''),
                store_record book name_text record'))
      | None \<Rightarrow> (Inr (str ''Contact not found.''), book))"
| "add_birthday_body args book = (Inl (not_enough_values 2 (length args)), book)"

definition add_birthday :: "pystr list \<Rightarrow> AddressBook \<Rightarrow> pystr \<times> AddressBook" where
  "add_birthday = input_error add_birthday_body"

fun show_birthday_body :: handler where
  "show_birthday_body (name_text # _) book =
     (case find' book name_text of
        Some record \<Rightarrow>
          (case birthday record of
             Some b \<Rightarrow>
               (Inr (name_text @ [ord (CHR 0x27)] @ str ''s birthday is on '' @ value' b @ str ''.''), book)
           | None \<Rightarrow> (Inr (str ''Birthday not found.''), book))
      | None \<Rightarrow> (Inr (str ''Birthday not found.''), book))"
| "show_birthday_body args book = (Inl (not_enough_values 1 (length args)), book)"

definition show_birthday :: "pystr list \<Rightarrow> AddressBook \<Rightarrow> pystr \<times> AddressBook" where
  "show_birthday = input_error show_birthday_body"

text \<open>
  The list comprehension of \<^verbatim>\<open>birthdays\<close>. A stored birthday that strptime rejects
  raises ValueError with a text of the library, \<open>libmsg\<close> of the stored text.
\<close>

fun upcoming :: "(pystr \<Rightarrow> pystr) \<Rightarrow> datetime \<Rightarrow> datetime \<Rightarrow> Record list \<Rightarrow> exn + pystr list" where
  "upcoming libmsg today next_week [] = Inr []"
| "upcoming libmsg today next_week (record # rest) =
     (case birthday record of
        None \<Rightarrow> upcoming libmsg today next_week rest
      | Some b \<Rightarrow>
          (case strptime (value' b) of
             None \<Rightarrow> Inl (ValueError (libmsg (value' b)))
           | Some d \<Rightarrow>
               (case upcoming libmsg today next_week rest of
                  Inl e \<Rightarrow> Inl e
                | Inr names \<Rightarrow>
                    if dt_le today d \<and> dt_le d next_week
                    then Inr (value' (name record) # names)
                    else Inr names)))"

text \<open>\<open>today\<close> is the value that \<^verbatim>\<open>datetime.today()\<close> returns when the handler runs.\<close>

definition birthdays_body :: "(pystr \<Rightarrow> pystr) \<Rightarrow> datetime \<Rightarrow> handler" where
  "birthdays_body libmsg today args book =
     (case add_days today 7 of
        Inl e \<Rightarrow> (Inl e, book)
      | Inr next_week \<Rightarrow>
          (case upcoming libmsg today next_week (get_all_records book) of
             Inl e \<Rightarrow> (Inl e, book)
           | Inr upcoming_birthdays \<Rightarrow>
               (Inr (if upcoming_birthdays \<noteq> []
                     then str ''Upcoming birthdays: '' @ join (str '', '') upcoming_birthdays
                     else str ''No birthdays in the next week.''), book)))"

definition birthdays ::
  "(pystr \<Rightarrow> pystr) \<Rightarrow> datetime \<Rightarrow> pystr list \<Rightarrow> AddressBook \<Rightarrow> pystr \<times> AddressBook" where
  "birthdays libmsg today = input_error (birthdays_body libmsg today)"

text \<open>The last two statements of \<^verbatim>\<open>add_contact\<close>, on the record held under \<open>key\<close>.\<close>

definition add_contact_phone ::
  "pystr \<Rightarrow> pystr \<Rightarrow> Record \<Rightarrow> pystr \<Rightarrow> AddressBook \<Rightarrow> (exn + pystr) \<times> AddressBook" where
  "add_contact_phone key phone record message book =
     (if phone \<noteq> []
      then (case Record_add_phone record phone of
              Inl e \<Rightarrow> (Inl e, book)
            | Inr record' \<Rightarrow> (Inr message, store_record book key record'))
      else (Inr message, book))"

fun add_contact_body :: handler where
  "add_contact_body (name_text # phone # _) book =
     (case find' book name_text of
        None \<Rightarrow>
          (case Record_init name_text of
             Inl e \<Rightarrow> (Inl e, book)
           | Inr record \<Rightarrow>
               add_contact_phone name_text phone record (str ''Contact added.'')
                 (add_record book record))
      | Some record \<Rightarrow> add_contact_phone name_text phone record (str ''Contact updated.'') book)"
| "add_contact_body args book = (Inl (not_enough_values 2 (length args)), book)"

definition add_contact :: "pystr list \<Rightarrow> AddressBook \<Rightarrow> pystr \<times> AddressBook" where
  "add_contact = input_error add_contact_body"

text \<open>
  The loop of \<^verbatim>\<open>change_contact\<close>: the first phone whose value is \<open>old_phone\<close> gets the
  value \<open>new_phone\<close>; \<open>None\<close> when the loop ends without finding one.
\<close>

fun change_first :: "pystr \<Rightarrow> pystr \<Rightarrow> Phone list \<Rightarrow> Phone list option" where
  "change_first old_phone new_phone [] = None"
| "change_first old_phone new_phone (phone # rest) =
     (if value' phone = old_phone then Some (phone\<lparr>value' := new_phone\<rparr> # rest)
      else (case change_first old_phone new_phone rest of
              None \<Rightarrow> None
            | Some rest' \<Rightarrow> Some (phone # rest')))"

fun change_contact_body :: handler where
  "change_contact_body (name_text # old_phone # new_phone # _) book =
     (case find' book name_text of
        Some record \<Rightarrow>
          (case change_first old_phone new_phone (phones record) of
             Some phones' \<Rightarrow>
               (Inr (str ''Phone number updated for '' @ name_text @ str ''.''),
                store_record book name_text (record\<lparr>phones := phones'\<rparr>))
           | None \<Rightarrow> (Inr (str ''Old phone number not found.''), book))
      | None \<Rightarrow> (Inr (str ''Contact not found.''), book))"
| "change_contact_body args book = (Inl (not_enough_values 3 (length args)), book)"

definition change_contact :: "pystr list \<Rightarrow> AddressBook \<Rightarrow> pystr \<times> AddressBook" where
  "change_contact = input_error change_contact_body"

section \<open>Statements of the specification\<close>

text \<open>
  The specification's phone pattern \<^verbatim>\<open>^[0-9]{10}$\<close>: exactly ten characters, each one
  of the ASCII digits.
\<close>

definition spec_phone_pattern :: "pystr \<Rightarrow> bool" where
  "spec_phone_pattern text = (length text = 10 \<and> list_all ascii_digit text)"

text \<open>
  The specification's birthday texts: a two-digit day, a dot, a two-digit month, a dot
  and a four-digit year, in ASCII digits, which together name a date that exists.
\<close>

definition ascii_value :: "pystr \<Rightarrow> nat" where
  "ascii_value s = foldl (\<lambda>n c. 10 * n + (c - ord (CHR ''0''))) 0 s"

definition spec_date_text :: "pystr \<Rightarrow> bool" where
  "spec_date_text v =
     (length v = 10 \<and> v ! 2 = ord (CHR ''.'') \<and> v ! 5 = ord (CHR ''.'') \<and>
      list_all ascii_digit (take 2 v @ take 2 (drop 3 v) @ drop 6 v) \<and>
      check_date_fields (ascii_value (drop 6 v)) (ascii_value (take 2 (drop 3 v)))
        (ascii_value (take 2 v)))"

text \<open>
  The texts that the program takes for a birthday. A day is one of the ASCII digits 1
  to 9, alone or after a zero or a blank, or 1 or 2 followed by a decimal digit of any
  script, or 3 followed by 0 or 1. A month is one of the ASCII digits 1 to 9, alone or
  after a zero, or 1 followed by 0, 1 or 2. A year is four decimal digits of any
  script. The three numbers name a date that exists in the years 1 to 9999.
\<close>

fun day_text :: "pystr \<Rightarrow> bool" where
  "day_text [a] = in_range (ord (CHR ''1'')) (ord (CHR ''9'')) a"
| "day_text [a, b] =
     ((a = ord (CHR ''3'') \<and> in_range (ord (CHR ''0'')) (ord (CHR ''1'')) b) \<or>
      (in_range (ord (CHR ''1'')) (ord (CHR ''2'')) a \<and> unicode_decimal b) \<or>
      (a = ord (CHR ''0'') \<and> in_range (ord (CHR ''1'')) (ord (CHR ''9'')) b) \<or>
      (a = ord (CHR '' '') \<and> in_range (ord (CHR ''1'')) (ord (CHR ''9'')) b))"
| "day_text _ = False"

fun month_text :: "pystr \<Rightarrow> bool" where
  "month_text [a] = in_range (ord (CHR ''1'')) (ord (CHR ''9'')) a"
| "month_text [a, b] =
     ((a = ord (CHR ''1'') \<and> in_range (ord (CHR ''0'')) (ord (CHR ''2'')) b) \<or>
      (a = ord (CHR ''0'') \<and> in_range (ord (CHR ''1'')) (ord (CHR ''9'')) b))"
| "month_text _ = False"

definition year_text :: "pystr \<Rightarrow> bool" where
  "year_text y = (length y = 4 \<and> list_all unicode_decimal y)"

definition lenient_date_text :: "pystr \<Rightarrow> bool" where
  "lenient_date_text v =
     (\<exists>d m y day month year.
        v = d @ str ''.'' @ m @ str ''.'' @ y \<and> day_text d \<and> month_text m \<and> year_text y \<and>
        int_of_text d = Some day \<and> int_of_text m = Some month \<and> int_of_text y = Some year \<and>
        check_date_fields year month day)"

section \<open>Facts about texts and digits\<close>

lemma ord_eq_iff: "ord a = ord b \<longleftrightarrow> a = b"
  by (simp add: ord_def)

lemma decimal_value_ascii: "ascii_digit c \<Longrightarrow> decimal_value c = Some (c - ord (CHR ''0''))"
proof -
  assume "ascii_digit c"
  then have c: "48 \<le> c" "c \<le> 57" by (simp_all add: ascii_digit_def in_range_def ord_def)
  then have "(c - 48) mod 10 = c - 48" by simp
  with c show ?thesis
    by (simp add: decimal_value_def Nd_ranges_def in_range_def ord_def)
qed

lemma ascii_digit_decimal: "ascii_digit c \<Longrightarrow> unicode_decimal c"
  by (simp add: unicode_decimal_def decimal_value_ascii)

lemma ascii_digit_unicode: "ascii_digit c \<Longrightarrow> unicode_digit c"
  by (simp add: unicode_digit_def ascii_digit_decimal)

lemma decimal_value_dot: "decimal_value (ord (CHR ''.'')) = None"
  by (simp add: decimal_value_def Nd_ranges_def in_range_def ord_def)

lemma decimal_value_blank: "decimal_value (ord (CHR '' '')) = None"
  by (simp add: decimal_value_def Nd_ranges_def in_range_def ord_def)

lemma unicode_decimal_not_dot: "unicode_decimal c \<Longrightarrow> c \<noteq> ord (CHR ''.'')"
  using decimal_value_dot by (auto simp: unicode_decimal_def)

lemma unicode_decimal_not_blank: "unicode_decimal c \<Longrightarrow> c \<noteq> ord (CHR '' '')"
  using decimal_value_blank by (auto simp: unicode_decimal_def)

lemmas digit_eval =
  unicode_digit_def unicode_decimal_def decimal_value_def Nd_ranges_def in_ranges_def
  Digit_ranges_def in_range_def ascii_digit_def str_def ord_def

section \<open>Phone construction\<close>

lemma Phone_init_cases:
  "Phone_init v =
     (if length v = 10 \<and> list_all unicode_digit v then Inr \<lparr>value' = v\<rparr>
      else Inl (ValueError (str ''Phone number must be 10 digits.'')))"
  by (auto simp: Phone_init_def isdigit_def Field_init_def)

text \<open>
  C2, as amended. Phone construction returns the phone holding the given text when the
  text has exactly ten characters that all satisfy \<^verbatim>\<open>str.isdigit\<close>, and raises
  ValueError with the text "Phone number must be 10 digits." in every other case. So
  every text of ten ASCII digits is accepted and stored unchanged, and every text whose
  length is not ten is rejected; but the accepted texts are more than those of the
  pattern \<^verbatim>\<open>^[0-9]{10}$\<close>, since \<^verbatim>\<open>str.isdigit\<close> also holds for digits outside ASCII.
\<close>

theorem Phone_init_isdigit:
  "Phone_init v =
     (if length v = 10 \<and> list_all unicode_digit v then Inr \<lparr>value' = v\<rparr>
      else Inl (ValueError (str ''Phone number must be 10 digits.''))) \<and>
   (spec_phone_pattern v \<longrightarrow> Phone_init v = Inr \<lparr>value' = v\<rparr>) \<and>
   (length v \<noteq> 10 \<longrightarrow> Phone_init v = Inl (ValueError (str ''Phone number must be 10 digits.'')))"
  by (auto simp: Phone_init_cases spec_phone_pattern_def list_all_iff ascii_digit_unicode)

theorem Phone_init_isdigit_witness:
  "spec_phone_pattern (str ''0501234567'') \<and>
   Phone_init (str ''0501234567'') = Inr \<lparr>value' = str ''0501234567''\<rparr> \<and>
   length (str ''12345'') \<noteq> 10 \<and>
   Phone_init (str ''12345'') = Inl (ValueError (str ''Phone number must be 10 digits.''))"
proof -
  have p: "spec_phone_pattern (str ''0501234567'')"
    by (simp add: spec_phone_pattern_def ascii_digit_def in_range_def str_def ord_def)
  have l: "length (str ''12345'') \<noteq> 10"
    by (simp add: str_def)
  from Phone_init_isdigit [of "str ''0501234567''"] Phone_init_isdigit [of "str ''12345''"] p l
  show ?thesis by blast
qed

text \<open>
  The claim as stated fails: the text of nine ASCII digits followed by the superscript
  two (U+00B2) does not match the pattern, and the constructor accepts it.
\<close>

theorem Phone_init_counterexample:
  "\<not> spec_phone_pattern (str ''123456789'' @ [0xB2]) \<and>
   Phone_init (str ''123456789'' @ [0xB2]) = Inr \<lparr>value' = str ''123456789'' @ [0xB2]\<rparr>"
  by (simp add: spec_phone_pattern_def Phone_init_cases digit_eval)

section \<open>Record creation\<close>

text \<open>
  C7, as amended. Record creation succeeds for every name text, the empty text
  included: it returns the record with that name, no phones and no birthday. The
  program checks no name.
\<close>

theorem Record_init_total:
  "Record_init name_text = Inr \<lparr>name = \<lparr>value' = name_text\<rparr>, phones = [], birthday = None\<rparr>"
  by (simp add: Record_init_def Name_init_def Field_init_def)

text \<open>The claim as stated fails at the empty name, for which creation returns a record.\<close>

theorem Record_init_empty_name:
  "Record_init [] = Inr \<lparr>name = \<lparr>value' = []\<rparr>, phones = [], birthday = None\<rparr>"
  by (simp add: Record_init_def Name_init_def Field_init_def)

section \<open>Loading\<close>

text \<open>
  C8. Loading from a file name at which the file system has no file returns a new,
  empty address book, not an error, whatever the reader of pickled data would do.
\<close>

theorem load_missing_file:
  "fs filename = None \<Longrightarrow>
     load_from_file loads fs filename = Inr AddressBook_init \<and> records AddressBook_init = []"
  by (simp add: load_from_file_def open_rb_def AddressBook_init_def)

theorem load_missing_file_witness:
  "(Map.empty :: filesystem) (str ''address_book.pkl'') = None \<and>
   load_from_file (\<lambda>b. Inl UnpicklingError) Map.empty (str ''address_book.pkl'')
     = Inr \<lparr>records = []\<rparr>"
  using load_missing_file [of Map.empty "str ''address_book.pkl''" "\<lambda>b. Inl UnpicklingError"]
  by (simp add: AddressBook_init_def)

section \<open>Showing a birthday\<close>

text \<open>
  C10. \<^verbatim>\<open>show_birthday\<close> answers "Birthday not found." and leaves the book as it is,
  both when the book has no record of the name and when it has one without a birthday.
\<close>

theorem show_birthday_not_found:
  "find' book name_text = None \<or> (\<exists>record. find' book name_text = Some record \<and> birthday record = None)
   \<Longrightarrow> show_birthday (name_text # rest) book = (str ''Birthday not found.'', book)"
  by (auto simp: show_birthday_def input_error_def)

theorem show_birthday_not_found_witness:
  "find' \<lparr>records = []\<rparr> (str ''Anna'') = None \<and>
   show_birthday [str ''Anna''] \<lparr>records = []\<rparr> = (str ''Birthday not found.'', \<lparr>records = []\<rparr>) \<and>
   find' \<lparr>records = [(str ''Anna'', \<lparr>name = \<lparr>value' = str ''Anna''\<rparr>, phones = [], birthday = None\<rparr>)]\<rparr>
       (str ''Anna'')
     = Some \<lparr>name = \<lparr>value' = str ''Anna''\<rparr>, phones = [], birthday = None\<rparr> \<and>
   show_birthday [str ''Anna'']
       \<lparr>records = [(str ''Anna'', \<lparr>name = \<lparr>value' = str ''Anna''\<rparr>, phones = [], birthday = None\<rparr>)]\<rparr>
     = (str ''Birthday not found.'',
        \<lparr>records = [(str ''Anna'', \<lparr>name = \<lparr>value' = str ''Anna''\<rparr>, phones = [], birthday = None\<rparr>)]\<rparr>)"
  using show_birthday_not_found [of "\<lparr>records = []\<rparr>" "str ''Anna''" "[]"]
    show_birthday_not_found
      [of "\<lparr>records = [(str ''Anna'', \<lparr>name = \<lparr>value' = str ''Anna''\<rparr>, phones = [], birthday = None\<rparr>)]\<rparr>"
          "str ''Anna''" "[]"]
  by (simp add: find'_def dict_get_def)

section \<open>Birthday construction\<close>

subsection \<open>What the pattern matches\<close>

lemma matches_Lit_iff: "r \<in> set (matches (Lit c) s) \<longleftrightarrow> s = c # r"
  by (auto split: list.splits)

lemma matches_re_d_sound: "r \<in> set (matches re_d s) \<Longrightarrow> \<exists>d. s = d @ r \<and> day_text d"
  by (auto simp: re_d_def split: list.splits if_splits)

lemma matches_re_d_complete: "day_text d \<Longrightarrow> r \<in> set (matches re_d (d @ r))"
  by (cases d rule: day_text.cases) (auto simp: re_d_def)

lemma matches_re_m_sound: "r \<in> set (matches re_m s) \<Longrightarrow> \<exists>d. s = d @ r \<and> month_text d"
  by (auto simp: re_m_def split: list.splits if_splits)

lemma matches_re_m_complete: "month_text d \<Longrightarrow> r \<in> set (matches re_m (d @ r))"
  by (cases d rule: month_text.cases) (auto simp: re_m_def)

lemma matches_re_Y_sound: "r \<in> set (matches re_Y s) \<Longrightarrow> \<exists>d. s = d @ r \<and> year_text d"
  by (auto simp: re_Y_def year_text_def split: list.splits if_splits)

lemma length_four: "length y = 4 \<Longrightarrow> \<exists>a b c e. y = [a, b, c, e]"
  by (simp add: eval_nat_numeral length_Suc_conv) blast

lemma matches_re_Y_complete: "year_text d \<Longrightarrow> r \<in> set (matches re_Y (d @ r))"
proof -
  assume y: "year_text d"
  then have "length d = 4" by (simp add: year_text_def)
  from length_four [OF this] obtain a b c e where "d = [a, b, c, e]"
    by (elim exE)
  with y show ?thesis by (simp add: re_Y_def year_text_def)
qed

lemma consumed_append: "consumed (d @ r) r = d"
  by (simp add: consumed_def)

lemma format_matchesI:
  "r1 \<in> set (matches re_d s) \<Longrightarrow> r2 \<in> set (matches (Lit (ord (CHR ''.''))) r1) \<Longrightarrow>
   r3 \<in> set (matches re_m r2) \<Longrightarrow> r4 \<in> set (matches (Lit (ord (CHR ''.''))) r3) \<Longrightarrow>
   r5 \<in> set (matches re_Y r4) \<Longrightarrow>
   (consumed s r1, consumed r2 r3, consumed r4 r5, r5) \<in> set (format_matches s)"
  unfolding format_matches_def
  apply (simp del: matches.simps)
  apply (rule bexI [of _ r1])
   apply (rule bexI [of _ r2])
    apply (rule bexI [of _ r3])
     apply (rule bexI [of _ r4])
      apply (rule image_eqI [of _ _ r5])
       apply (rule refl)
      apply assumption+
  done

lemma format_matches_iff:
  "(d, m, y, r) \<in> set (format_matches s) \<longleftrightarrow>
     s = d @ str ''.'' @ m @ str ''.'' @ y @ r \<and> day_text d \<and> month_text m \<and> year_text y"
proof
  assume "(d, m, y, r) \<in> set (format_matches s)"
  then obtain r1 r2 r3 r4 where
    m1: "r1 \<in> set (matches re_d s)" and m2: "r2 \<in> set (matches (Lit (ord (CHR ''.''))) r1)" and
    m3: "r3 \<in> set (matches re_m r2)" and m4: "r4 \<in> set (matches (Lit (ord (CHR ''.''))) r3)" and
    m5: "r \<in> set (matches re_Y r4)" and
    d: "d = consumed s r1" and m: "m = consumed r2 r3" and y: "y = consumed r4 r"
    unfolding format_matches_def by auto
  from m1 obtain d' where d': "s = d' @ r1" "day_text d'" using matches_re_d_sound by blast
  from m3 obtain m' where m': "r2 = m' @ r3" "month_text m'" using matches_re_m_sound by blast
  from m5 obtain y' where y': "r4 = y' @ r" "year_text y'" using matches_re_Y_sound by blast
  from m2 have r1: "r1 = ord (CHR ''.'') # r2" by (simp only: matches_Lit_iff)
  from m4 have r3: "r3 = ord (CHR ''.'') # r4" by (simp only: matches_Lit_iff)
  have "d = d'" "m = m'" "y = y'"
    using d m y d' m' y' by (simp_all add: consumed_append)
  then show "s = d @ str ''.'' @ m @ str ''.'' @ y @ r \<and> day_text d \<and> month_text m \<and> year_text y"
    using d' m' y' r1 r3 by (simp add: str_def)
next
  assume a: "s = d @ str ''.'' @ m @ str ''.'' @ y @ r \<and> day_text d \<and> month_text m \<and> year_text y"
  let ?r4 = "y @ r"
  let ?r3 = "ord (CHR ''.'') # ?r4"
  let ?r2 = "m @ ?r3"
  let ?r1 = "ord (CHR ''.'') # ?r2"
  have s: "s = d @ ?r1" using a by (simp add: str_def)
  have m1: "?r1 \<in> set (matches re_d s)" unfolding s using a by (intro matches_re_d_complete) simp
  have m2: "?r2 \<in> set (matches (Lit (ord (CHR ''.''))) ?r1)" by (simp only: matches_Lit_iff)
  have m3: "?r3 \<in> set (matches re_m ?r2)" using a by (intro matches_re_m_complete) simp
  have m4: "?r4 \<in> set (matches (Lit (ord (CHR ''.''))) ?r3)" by (simp only: matches_Lit_iff)
  have m5: "r \<in> set (matches re_Y ?r4)" using a by (intro matches_re_Y_complete) simp
  have c: "consumed s ?r1 = d" "consumed ?r2 ?r3 = m" "consumed ?r4 r = y"
    unfolding s by (rule consumed_append)+
  show "(d, m, y, r) \<in> set (format_matches s)"
    using format_matchesI [OF m1 m2 m3 m4 m5] by (simp only: c)
qed

lemma in_range_not_dot:
  "in_range (ord (CHR ''0'')) (ord (CHR ''9'')) c \<Longrightarrow> c \<noteq> ord (CHR ''.'')"
  by (auto simp: in_range_def ord_def)

lemma day_text_no_dot: "day_text d \<Longrightarrow> ord (CHR ''.'') \<notin> set d"
  by (cases d rule: day_text.cases)
     (auto simp: in_range_def ord_def dest: unicode_decimal_not_dot [unfolded ord_def])

lemma month_text_no_dot: "month_text d \<Longrightarrow> ord (CHR ''.'') \<notin> set d"
  by (cases d rule: month_text.cases) (auto simp: in_range_def ord_def)

lemma split_unique:
  "c \<notin> set d \<Longrightarrow> c \<notin> set d' \<Longrightarrow> d @ c # t = d' @ c # t' \<Longrightarrow> d = d' \<and> t = t'"
proof (induction d arbitrary: d')
  case Nil
  then show ?case by (cases d') auto
next
  case (Cons a d)
  then show ?case by (cases d') auto
qed

lemma format_matches_unique:
  assumes "(d, m, y, r) \<in> set (format_matches s)" and "(d', m', y', r') \<in> set (format_matches s)"
  shows "d' = d \<and> m' = m \<and> y' = y \<and> r' = r"
proof -
  let ?dot = "ord (CHR ''.'')"
  from assms(1) have a: "s = d @ ?dot # m @ ?dot # y @ r" "day_text d" "month_text m" "year_text y"
    by (simp_all add: format_matches_iff str_def)
  from assms(2) have b: "s = d' @ ?dot # m' @ ?dot # y' @ r'" "day_text d'" "month_text m'" "year_text y'"
    by (simp_all add: format_matches_iff str_def)
  have 1: "d = d' \<and> m @ ?dot # y @ r = m' @ ?dot # y' @ r'"
    using a b by (intro split_unique [of ?dot]) (simp_all add: day_text_no_dot)
  then have 2: "m = m' \<and> y @ r = y' @ r'"
    using a b by (intro split_unique [of ?dot]) (simp_all add: month_text_no_dot)
  then have "y = y' \<and> r = r'"
    using a(4) b(4) by (simp add: year_text_def)
  with 1 2 show ?thesis by simp
qed

lemma strptime_accepts_iff: "(strptime v \<noteq> None) = lenient_date_text v"
proof
  assume ok: "strptime v \<noteq> None"
  then obtain d m y rest xs where fm: "format_matches v = (d, m, y, rest) # xs"
    by (cases "format_matches v") (auto simp: strptime_def)
  with ok have r: "rest = []"
    by (auto simp: strptime_def split: if_splits)
  from ok fm r obtain day month year where
    i: "int_of_text d = Some day" "int_of_text m = Some month" "int_of_text y = Some year"
    and c: "check_date_fields year month day"
    by (auto simp: strptime_def split: option.splits if_splits)
  from fm have "(d, m, y, rest) \<in> set (format_matches v)" by simp
  then have sh: "v = d @ str ''.'' @ m @ str ''.'' @ y @ rest" "day_text d" "month_text m"
      "year_text y"
    by (simp_all add: format_matches_iff)
  show "lenient_date_text v"
    unfolding lenient_date_text_def
    apply (rule exI [of _ d], rule exI [of _ m], rule exI [of _ y])
    apply (rule exI [of _ day], rule exI [of _ month], rule exI [of _ year])
    using sh r i c apply simp
    done
next
  assume "lenient_date_text v"
  then obtain d m y day month year where v: "v = d @ str ''.'' @ m @ str ''.'' @ y @ []" and
    t: "day_text d" "month_text m" "year_text y" and
    i: "int_of_text d = Some day" "int_of_text m = Some month" "int_of_text y = Some year" and
    c: "check_date_fields year month day"
    unfolding lenient_date_text_def by auto
  from v t have mem: "(d, m, y, []) \<in> set (format_matches v)"
    by (simp only: format_matches_iff simp_thms)
  then obtain x xs where fm: "format_matches v = x # xs"
    by (cases "format_matches v") auto
  obtain d' m' y' r' where x: "x = (d', m', y', r')" by (cases x) auto
  from fm x have "(d', m', y', r') \<in> set (format_matches v)" by simp
  from format_matches_unique [OF mem this] have "x = (d, m, y, [])" by (simp add: x)
  with fm i c show "strptime v \<noteq> None" by (simp add: strptime_def)
qed

lemma Birthday_init_cases:
  "Birthday_init v =
     (if lenient_date_text v then Inr \<lparr>value' = v\<rparr>
      else Inl (ValueError (str ''Invalid date format. Use DD.MM.YYYY'')))"
  using strptime_accepts_iff [of v]
  by (auto simp: Birthday_init_def Field_init_def split: option.splits)

subsection \<open>Zero-padded dates in ASCII digits\<close>

lemma digits_value_ascii:
  "list_all ascii_digit s \<Longrightarrow>
   digits_value n s = Some (foldl (\<lambda>n c. 10 * n + (c - ord (CHR ''0''))) n s)"
  by (induction s arbitrary: n) (simp_all add: decimal_value_ascii)

lemma int_of_text_ascii:
  assumes "list_all ascii_digit s" and "s \<noteq> []"
  shows "int_of_text s = Some (ascii_value s)"
proof -
  from assms obtain c cs where s: "s = c # cs" by (cases s) auto
  with assms(1) have "ascii_digit c" by simp
  then have "c \<noteq> ord (CHR '' '')" using ascii_digit_decimal unicode_decimal_not_blank by blast
  then have "dropWhile (\<lambda>c. c = ord (CHR '' '')) s = c # cs" by (simp add: s)
  then show ?thesis
    using digits_value_ascii [OF assms(1), of 0] by (simp add: int_of_text_def ascii_value_def s)
qed

lemma length_ten:
  "length v = 10 \<Longrightarrow> \<exists>a b c d e f g h i j. v = [a, b, c, d, e, f, g, h, i, j]"
  by (simp add: eval_nat_numeral length_Suc_conv) blast

lemma ascii_value_two: "ascii_value [a, b] = 10 * (a - 48) + (b - 48)"
  by (simp add: ascii_value_def ord_def)

lemma days_in_month_le: "1 \<le> month \<Longrightarrow> month \<le> 12 \<Longrightarrow> days_in_month year month \<le> 31"
proof -
  assume "1 \<le> month" "month \<le> 12"
  then have "month = 1 \<or> month = 2 \<or> month = 3 \<or> month = 4 \<or> month = 5 \<or> month = 6 \<or>
      month = 7 \<or> month = 8 \<or> month = 9 \<or> month = 10 \<or> month = 11 \<or> month = 12"
    by arith
  then show ?thesis
    by (elim disjE) (simp_all add: days_in_month_def DAYS_IN_MONTH_def)
qed

lemma day_text_of_digits:
  assumes "ascii_digit a" "ascii_digit b"
    and "1 \<le> 10 * (a - 48) + (b - 48)"
    and "10 * (a - 48) + (b - 48) \<le> 31"
  shows "day_text [a, b]"
proof -
  have "unicode_decimal b" using assms(2) by (rule ascii_digit_decimal)
  with assms show ?thesis
    by (simp add: ascii_digit_def in_range_def ord_def) arith
qed

lemma month_text_of_digits:
  assumes "ascii_digit a" "ascii_digit b"
    and "1 \<le> 10 * (a - 48) + (b - 48)"
    and "10 * (a - 48) + (b - 48) \<le> 12"
  shows "month_text [a, b]"
  using assms by (simp add: ascii_digit_def in_range_def ord_def) arith

lemma spec_date_text_lenient: "spec_date_text v \<Longrightarrow> lenient_date_text v"
proof -
  assume sp: "spec_date_text v"
  then have "length v = 10" by (simp add: spec_date_text_def)
  from length_ten [OF this] obtain a b c d e f g h i j where v: "v = [a, b, c, d, e, f, g, h, i, j]"
    by (elim exE)
  from sp have dots: "c = ord (CHR ''.'')" "f = ord (CHR ''.'')"
    and dig: "ascii_digit a" "ascii_digit b" "ascii_digit d" "ascii_digit e"
      "ascii_digit g" "ascii_digit h" "ascii_digit i" "ascii_digit j"
    and chk: "check_date_fields (ascii_value [g, h, i, j]) (ascii_value [d, e]) (ascii_value [a, b])"
    by (simp_all add: spec_date_text_def v)
  from chk have mo: "1 \<le> ascii_value [d, e]" "ascii_value [d, e] \<le> 12"
    and da: "1 \<le> ascii_value [a, b]"
      "ascii_value [a, b] \<le> days_in_month (ascii_value [g, h, i, j]) (ascii_value [d, e])"
    by (simp_all add: check_date_fields_def)
  from da(2) days_in_month_le [OF mo] have da31: "ascii_value [a, b] \<le> 31"
    by (rule order_trans)
  have dt: "day_text [a, b]"
    using dig(1,2) da(1) da31 unfolding ascii_value_two by (rule day_text_of_digits)
  have mt: "month_text [d, e]"
    using dig(3,4) mo unfolding ascii_value_two by (rule month_text_of_digits)
  have yt: "year_text [g, h, i, j]"
    using dig by (simp add: year_text_def ascii_digit_decimal)
  have iv: "int_of_text [a, b] = Some (ascii_value [a, b])"
      "int_of_text [d, e] = Some (ascii_value [d, e])"
      "int_of_text [g, h, i, j] = Some (ascii_value [g, h, i, j])"
    using dig by (simp_all add: int_of_text_ascii)
  have sh: "v = [a, b] @ str ''.'' @ [d, e] @ str ''.'' @ [g, h, i, j]"
    by (simp add: v dots str_def)
  show ?thesis
    unfolding lenient_date_text_def
    apply (rule exI [of _ "[a, b]"], rule exI [of _ "[d, e]"], rule exI [of _ "[g, h, i, j]"])
    apply (rule exI [of _ "ascii_value [a, b]"], rule exI [of _ "ascii_value [d, e]"])
    apply (rule exI [of _ "ascii_value [g, h, i, j]"])
    using sh dt mt yt iv chk apply simp
    done
qed

subsection \<open>Particular texts\<close>

lemmas strptime_eval =
  strptime_def format_matches_def re_d_def re_m_def re_Y_def in_range_def unicode_decimal_def
  decimal_value_def Nd_ranges_def consumed_def int_of_text_def check_date_fields_def
  days_in_month_def is_leap_def MINYEAR_def MAXYEAR_def DAYS_IN_MONTH_def str_def ord_def
  ymd2ord_def days_before_year_def days_before_month_def DAYS_BEFORE_MONTH_def

lemma strptime_29_02_2023: "strptime (str ''29.02.2023'') = None"
  by (simp add: strptime_eval)

lemma strptime_29_02_2024:
  "strptime (str ''29.02.2024'') = Some \<lparr>ordinal = ymd2ord 2024 2 29, micros = 0\<rparr>"
  by (simp add: strptime_eval)

lemma strptime_1_2_2024:
  "strptime (str ''1.2.2024'') = Some \<lparr>ordinal = ymd2ord 2024 2 1, micros = 0\<rparr>"
  by (simp add: strptime_eval)

text \<open>
  Digits of other scripts, here the Arabic-Indic digits U+0660 to U+0669: a year in
  them is read, the second digit of a day from 10 to 29 in them is read, the first
  digit of a day in them is not.
\<close>

lemma strptime_year_other_script:
  "strptime (str ''29.02.'' @ [0x662, 0x660, 0x662, 0x664])
     = Some \<lparr>ordinal = ymd2ord 2024 2 29, micros = 0\<rparr>"
  by (simp add: strptime_eval)

lemma strptime_day_other_script:
  "strptime (0x31 # 0x662 # str ''.02.2024'')
     = Some \<lparr>ordinal = ymd2ord 2024 2 12, micros = 0\<rparr>"
  by (simp add: strptime_eval)

lemma strptime_day_first_digit_other_script:
  "strptime (0x662 # 0x669 # str ''.02.2024'') = None"
  by (simp add: strptime_eval)

subsection \<open>The constructor\<close>

text \<open>
  C3, as amended. Birthday construction returns the birthday holding the given text
  when the text is a day, a dot, a month, a dot and a year that name a date existing
  in the years 0001 to 9999, where the day is one of the ASCII digits 1 to 9, alone or
  after a zero or a blank, or 1 or 2 followed by a decimal digit of any script, or 3
  followed by 0 or 1; the month is one of the ASCII digits 1 to 9, alone or after a
  zero, or 1 followed by 0, 1 or 2; and the year is exactly four decimal digits of any
  script. In every other case it raises ValueError with the text "Invalid date format.
  Use DD.MM.YYYY". So every zero-padded text DD.MM.YYYY in ASCII digits of a date that
  exists is accepted, "29.02.2023" is rejected and "29.02.2024" is accepted; but
  zero-padding is not required, and a year in the digits of another script is accepted.
\<close>

theorem Birthday_init_strptime:
  "Birthday_init v =
     (if lenient_date_text v then Inr \<lparr>value' = v\<rparr>
      else Inl (ValueError (str ''Invalid date format. Use DD.MM.YYYY''))) \<and>
   (spec_date_text v \<longrightarrow> Birthday_init v = Inr \<lparr>value' = v\<rparr>) \<and>
   Birthday_init (str ''29.02.2023'')
     = Inl (ValueError (str ''Invalid date format. Use DD.MM.YYYY'')) \<and>
   Birthday_init (str ''29.02.2024'') = Inr \<lparr>value' = str ''29.02.2024''\<rparr> \<and>
   Birthday_init (str ''29.02.'' @ [0x662, 0x660, 0x662, 0x664])
     = Inr \<lparr>value' = str ''29.02.'' @ [0x662, 0x660, 0x662, 0x664]\<rparr> \<and>
   Birthday_init (0x31 # 0x662 # str ''.02.2024'') = Inr \<lparr>value' = 0x31 # 0x662 # str ''.02.2024''\<rparr> \<and>
   Birthday_init (0x662 # 0x669 # str ''.02.2024'')
     = Inl (ValueError (str ''Invalid date format. Use DD.MM.YYYY''))"
proof (intro conjI impI)
  show "Birthday_init v =
     (if lenient_date_text v then Inr \<lparr>value' = v\<rparr>
      else Inl (ValueError (str ''Invalid date format. Use DD.MM.YYYY'')))"
    by (rule Birthday_init_cases)
  show "Birthday_init v = Inr \<lparr>value' = v\<rparr>" if "spec_date_text v"
    using spec_date_text_lenient [OF that] by (simp add: Birthday_init_cases)
  show "Birthday_init (str ''29.02.2023'')
      = Inl (ValueError (str ''Invalid date format. Use DD.MM.YYYY''))"
    by (simp add: Birthday_init_def strptime_29_02_2023)
  show "Birthday_init (str ''29.02.2024'') = Inr \<lparr>value' = str ''29.02.2024''\<rparr>"
    by (simp add: Birthday_init_def strptime_29_02_2024 Field_init_def)
  show "Birthday_init (str ''29.02.'' @ [0x662, 0x660, 0x662, 0x664])
      = Inr \<lparr>value' = str ''29.02.'' @ [0x662, 0x660, 0x662, 0x664]\<rparr>"
    by (simp add: Birthday_init_def strptime_year_other_script Field_init_def)
  show "Birthday_init (0x31 # 0x662 # str ''.02.2024'')
      = Inr \<lparr>value' = 0x31 # 0x662 # str ''.02.2024''\<rparr>"
    by (simp add: Birthday_init_def strptime_day_other_script Field_init_def)
  show "Birthday_init (0x662 # 0x669 # str ''.02.2024'')
      = Inl (ValueError (str ''Invalid date format. Use DD.MM.YYYY''))"
    by (simp add: Birthday_init_def strptime_day_first_digit_other_script)
qed

theorem Birthday_init_strptime_witness:
  "spec_date_text (str ''29.02.2024'') \<and>
   Birthday_init (str ''29.02.2024'') = Inr \<lparr>value' = str ''29.02.2024''\<rparr> \<and>
   \<not> spec_date_text (str ''29.02.2023'') \<and>
   Birthday_init (str ''29.02.2023'')
     = Inl (ValueError (str ''Invalid date format. Use DD.MM.YYYY''))"
proof -
  have yes: "spec_date_text (str ''29.02.2024'')"
    by (simp add: spec_date_text_def ascii_digit_def in_range_def ascii_value_def
          check_date_fields_def days_in_month_def is_leap_def MINYEAR_def MAXYEAR_def
          str_def ord_def)
  have no: "\<not> spec_date_text (str ''29.02.2023'')"
    by (simp add: spec_date_text_def ascii_digit_def in_range_def ascii_value_def
          check_date_fields_def days_in_month_def is_leap_def MINYEAR_def MAXYEAR_def
          DAYS_IN_MONTH_def str_def ord_def)
  from Birthday_init_strptime [of "str ''29.02.2024''"] yes no show ?thesis
    by blast
qed

text \<open>
  The claim as stated fails: "1.2.2024" has a one-digit day and a one-digit month, and
  the constructor accepts it.
\<close>

theorem Birthday_init_counterexample:
  "\<not> spec_date_text (str ''1.2.2024'') \<and>
   Birthday_init (str ''1.2.2024'') = Inr \<lparr>value' = str ''1.2.2024''\<rparr>"
  by (simp add: spec_date_text_def Birthday_init_def strptime_1_2_2024 Field_init_def)
     (simp add: str_def)

section \<open>Saving and then loading\<close>

subsection \<open>Unpickling what was pickled\<close>

lemma Field_rebuild_reduce: "Field_rebuild cls (Field_reduce cls self) = Some self"
  by (simp add: Field_rebuild_def Field_reduce_def)

lemma those_map_rebuild:
  "(\<And>x. g (f x) = Some x) \<Longrightarrow> those (map g (map f xs)) = Some xs"
  by (induction xs) simp_all

lemma Birthday_rebuild_reduce:
  "Birthday_rebuild (case b of None \<Rightarrow> PyNone | Some x \<Rightarrow> Field_reduce ''Birthday'' x) = Some b"
proof (cases b)
  case None
  then show ?thesis by (simp add: Birthday_rebuild_def)
next
  case (Some x)
  have "Field_rebuild ''Birthday'' (Field_reduce ''Birthday'' x) = Some x"
    by (rule Field_rebuild_reduce)
  then show ?thesis
    by (simp add: Some Birthday_rebuild_def Field_reduce_def)
qed

lemma Record_rebuild_reduce: "Record_rebuild (Record_reduce self) = Some self"
  using those_map_rebuild [of "Field_rebuild ''Phone''" "Field_reduce ''Phone''" "phones self",
      OF Field_rebuild_reduce]
  by (simp add: Record_rebuild_def Record_reduce_def Field_rebuild_reduce Birthday_rebuild_reduce)

lemma item_rebuild_reduce:
  "item_rebuild (PyStr (fst item), Record_reduce (snd item)) = Some item"
  by (simp add: item_rebuild_def Record_rebuild_reduce)

lemma AddressBook_rebuild_reduce: "AddressBook_rebuild (AddressBook_reduce self) = Some self"
  using those_map_rebuild
    [of item_rebuild "\<lambda>item. (PyStr (fst item), Record_reduce (snd item))" "records self",
      OF item_rebuild_reduce]
  by (simp add: AddressBook_rebuild_def AddressBook_reduce_def)

lemma pickle_load_dump: "pickle_load (pickle_dump book) = Inr book"
  by (simp add: pickle_load_def pickle_dump_def AddressBook_rebuild_reduce)

subsection \<open>The round trip\<close>

text \<open>
  C1. Saving a book under a file name succeeds when the name can be opened for
  writing, and whenever saving has succeeded, loading from that name in the file
  system that saving has left returns the book that was saved: the same names in the
  same order, each with the same phones in the same order and the same birthday or
  none. This holds for every book, also one holding texts that no constructor would
  accept, since unpickling validates nothing.
\<close>

theorem save_then_load:
  "(can_write filename \<longrightarrow>
      (\<exists>fs'. save_to_file can_write pickle_dump book filename fs = Inr fs')) \<and>
   (\<forall>fs'. save_to_file can_write pickle_dump book filename fs = Inr fs' \<longrightarrow>
      load_from_file pickle_load fs' filename = Inr book)"
  by (auto simp: save_to_file_def open_wb_def load_from_file_def open_rb_def pickle_load_dump
        split: if_splits)

theorem save_then_load_witness:
  "save_to_file (\<lambda>filename. True) pickle_dump
      \<lparr>records = [(str ''Anna'', \<lparr>name = \<lparr>value' = str ''Anna''\<rparr>,
                                  phones = [\<lparr>value' = str ''0501234567''\<rparr>],
                                  birthday = Some \<lparr>value' = str ''29.02.2024''\<rparr>\<rparr>)]\<rparr>
      (str ''address_book.pkl'') Map.empty
     = Inr (Map.empty(str ''address_book.pkl'' \<mapsto> pickle_dump
              \<lparr>records = [(str ''Anna'', \<lparr>name = \<lparr>value' = str ''Anna''\<rparr>,
                                  phones = [\<lparr>value' = str ''0501234567''\<rparr>],
                                  birthday = Some \<lparr>value' = str ''29.02.2024''\<rparr>\<rparr>)]\<rparr>)) \<and>
   load_from_file pickle_load
      (Map.empty(str ''address_book.pkl'' \<mapsto> pickle_dump
              \<lparr>records = [(str ''Anna'', \<lparr>name = \<lparr>value' = str ''Anna''\<rparr>,
                                  phones = [\<lparr>value' = str ''0501234567''\<rparr>],
                                  birthday = Some \<lparr>value' = str ''29.02.2024''\<rparr>\<rparr>)]\<rparr>))
      (str ''address_book.pkl'')
     = Inr \<lparr>records = [(str ''Anna'', \<lparr>name = \<lparr>value' = str ''Anna''\<rparr>,
                                  phones = [\<lparr>value' = str ''0501234567''\<rparr>],
                                  birthday = Some \<lparr>value' = str ''29.02.2024''\<rparr>\<rparr>)]\<rparr>"
proof -
  let ?book = "\<lparr>records = [(str ''Anna'', \<lparr>name = \<lparr>value' = str ''Anna''\<rparr>,
                                  phones = [\<lparr>value' = str ''0501234567''\<rparr>],
                                  birthday = Some \<lparr>value' = str ''29.02.2024''\<rparr>\<rparr>)]\<rparr>"
  let ?fs' = "(Map.empty :: filesystem)(str ''address_book.pkl'' \<mapsto> pickle_dump ?book)"
  have s: "save_to_file (\<lambda>filename. True) pickle_dump ?book (str ''address_book.pkl'') Map.empty
      = Inr ?fs'"
    by (simp add: save_to_file_def open_wb_def)
  from save_then_load [of "\<lambda>filename. True" "str ''address_book.pkl''" ?book Map.empty] s
  have "load_from_file pickle_load ?fs' (str ''address_book.pkl'') = Inr ?book"
    by blast
  with s show ?thesis by (intro conjI)
qed

section \<open>Adding a record and adding a contact\<close>

lemma dict_get_set: "dict_get (dict_set k v d) k' = (if k' = k then Some v else dict_get d k')"
  by (induction d) (auto simp: dict_get_def)

lemma dict_set_absent: "k \<notin> fst ` set d \<Longrightarrow> dict_set k v d = d @ [(k, v)]"
  by (induction d) auto

lemma map_other_keys: "k \<notin> fst ` set d \<Longrightarrow> map (\<lambda>e. if fst e = k then (fst e, v) else e) d = d"
  by (induction d) auto

lemma dict_set_present:
  "distinct (map fst d) \<Longrightarrow> k \<in> fst ` set d \<Longrightarrow>
   dict_set k v d = map (\<lambda>e. if fst e = k then (fst e, v) else e) d"
proof (induction d)
  case Nil
  then show ?case by simp
next
  case (Cons p ps)
  show ?case
  proof (cases "fst p = k")
    case True
    with Cons.prems have "k \<notin> fst ` set ps" by auto
    then show ?thesis using True by (simp add: map_other_keys)
  next
    case False
    with Cons show ?thesis by auto
  qed
qed

lemma map_fst_replaced: "map fst (map (\<lambda>e. if fst e = k then (fst e, v) else e) d) = map fst d"
  by (induction d) auto

lemma distinct_dict_set: "distinct (map fst d) \<Longrightarrow> distinct (map fst (dict_set k v d))"
proof (cases "k \<in> fst ` set d")
  case True
  assume d: "distinct (map fst d)"
  show ?thesis
    unfolding dict_set_present [OF d True] map_fst_replaced by (rule d)
next
  case False
  assume "distinct (map fst d)"
  with False show ?thesis by (simp add: dict_set_absent)
qed

lemma dict_get_Some_key: "dict_get d k = Some v \<Longrightarrow> k \<in> fst ` set d"
  by (auto simp: dict_get_def dest: map_of_SomeD intro: rev_image_eqI)

lemma find'_add_record:
  "find' (add_record book r) k = (if k = value' (name r) then Some r else find' book k)"
  by (simp add: find'_def add_record_def dict_get_set)

lemma find'_store_record:
  "find' (store_record book key r) k = (if k = key then Some r else find' book k)"
  by (simp add: find'_def store_record_def dict_get_set)

lemma Phone_init_Inr_nonempty: "Phone_init phone = Inr p \<Longrightarrow> phone \<noteq> []"
  by (auto simp: Phone_init_def isdigit_def split: if_splits)

lemma add_contact_existing:
  "find' book n = Some old \<Longrightarrow> Phone_init phone = Inr p \<Longrightarrow>
   add_contact (n # phone # rest) book
     = (str ''Contact updated.'', store_record book n (old\<lparr>phones := phones old @ [p]\<rparr>))"
  by (frule Phone_init_Inr_nonempty)
     (simp add: add_contact_def input_error_def add_contact_phone_def Record_add_phone_def)

lemma add_contact_existing_invalid:
  "find' book n = Some old \<Longrightarrow> Phone_init phone = Inl e \<Longrightarrow>
   add_contact (n # phone # rest) book
     = (if phone = [] then str ''Contact updated.'' else str_exn e, book)"
  by (simp add: add_contact_def input_error_def add_contact_phone_def Record_add_phone_def)

lemma store_record_present:
  "distinct (map fst (records book)) \<Longrightarrow> find' book n = Some old \<Longrightarrow>
   store_record book n r
     = book\<lparr>records := map (\<lambda>e. if fst e = n then (fst e, r) else e) (records book)\<rparr>"
  by (simp add: store_record_def find'_def dict_set_present dict_get_Some_key)

text \<open>
  C9. In a book, whose dictionary has no key twice, \<^verbatim>\<open>add_record\<close> with a record whose
  name is already a key leaves the entries as they were, in their order, except that
  the entry of that key now holds the new record: nothing of the old record remains,
  and \<^verbatim>\<open>get_all_records\<close> yields the new record in its place. With a name that is not
  a key the record becomes the last entry. \<^verbatim>\<open>add_contact\<close> with a name that has a
  record and a phone that \<^verbatim>\<open>add_phone\<close> accepts answers "Contact updated." and leaves
  the entries as they were, except that the record of that name has the phone
  appended after its phones, its name and birthday as they were; with a phone that
  \<^verbatim>\<open>add_phone\<close> rejects it leaves the book as it was.
\<close>

theorem add_record_replaces_add_contact_appends:
  "distinct (map fst (records book)) \<Longrightarrow>
   distinct (map fst (records (add_record book r))) \<and>
   (value' (name r) \<in> fst ` set (records book) \<longrightarrow>
      records (add_record book r)
        = map (\<lambda>e. if fst e = value' (name r) then (fst e, r) else e) (records book) \<and>
      get_all_records (add_record book r)
        = map (\<lambda>e. if fst e = value' (name r) then r else snd e) (records book)) \<and>
   (value' (name r) \<notin> fst ` set (records book) \<longrightarrow>
      records (add_record book r) = records book @ [(value' (name r), r)]) \<and>
   (\<forall>old p. find' book n = Some old \<and> Phone_init phone = Inr p \<longrightarrow>
      add_contact (n # phone # rest) book
        = (str ''Contact updated.'',
           book\<lparr>records := map (\<lambda>e. if fst e = n then (fst e, old\<lparr>phones := phones old @ [p]\<rparr>)
                                    else e) (records book)\<rparr>)) \<and>
   (\<forall>old e. find' book n = Some old \<and> Phone_init phone = Inl e \<longrightarrow>
      snd (add_contact (n # phone # rest) book) = book)"
proof (intro conjI impI allI)
  assume d: "distinct (map fst (records book))"
  show "distinct (map fst (records (add_record book r)))"
    using d by (simp add: add_record_def distinct_dict_set)
  show "records (add_record book r)
      = map (\<lambda>e. if fst e = value' (name r) then (fst e, r) else e) (records book)"
    if "value' (name r) \<in> fst ` set (records book)"
    using d that by (simp add: add_record_def dict_set_present)
  then show "get_all_records (add_record book r)
      = map (\<lambda>e. if fst e = value' (name r) then r else snd e) (records book)"
    if "value' (name r) \<in> fst ` set (records book)"
    using that by (simp add: get_all_records_def o_def if_distrib cong: if_cong)
  show "records (add_record book r) = records book @ [(value' (name r), r)]"
    if "value' (name r) \<notin> fst ` set (records book)"
    using that by (simp add: add_record_def dict_set_absent)
  show "add_contact (n # phone # rest) book
      = (str ''Contact updated.'',
         book\<lparr>records := map (\<lambda>e. if fst e = n then (fst e, old\<lparr>phones := phones old @ [p]\<rparr>)
                                  else e) (records book)\<rparr>)"
    if "find' book n = Some old \<and> Phone_init phone = Inr p" for old p
    using that d by (simp add: add_contact_existing store_record_present)
  show "snd (add_contact (n # phone # rest) book) = book"
    if "find' book n = Some old \<and> Phone_init phone = Inl e" for old e
    using that by (simp add: add_contact_existing_invalid)
qed

theorem add_record_replaces_add_contact_appends_witness:
  "distinct (map fst (records
      \<lparr>records = [(str ''Anna'', \<lparr>name = \<lparr>value' = str ''Anna''\<rparr>,
                                  phones = [\<lparr>value' = str ''0501234567''\<rparr>],
                                  birthday = Some \<lparr>value' = str ''29.02.2024''\<rparr>\<rparr>),
                  (str ''Bob'', \<lparr>name = \<lparr>value' = str ''Bob''\<rparr>, phones = [], birthday = None\<rparr>)]\<rparr>)) \<and>
   records (add_record
      \<lparr>records = [(str ''Anna'', \<lparr>name = \<lparr>value' = str ''Anna''\<rparr>,
                                  phones = [\<lparr>value' = str ''0501234567''\<rparr>],
                                  birthday = Some \<lparr>value' = str ''29.02.2024''\<rparr>\<rparr>),
                  (str ''Bob'', \<lparr>name = \<lparr>value' = str ''Bob''\<rparr>, phones = [], birthday = None\<rparr>)]\<rparr>
      \<lparr>name = \<lparr>value' = str ''Anna''\<rparr>, phones = [], birthday = None\<rparr>)
     = [(str ''Anna'', \<lparr>name = \<lparr>value' = str ''Anna''\<rparr>, phones = [], birthday = None\<rparr>),
        (str ''Bob'', \<lparr>name = \<lparr>value' = str ''Bob''\<rparr>, phones = [], birthday = None\<rparr>)] \<and>
   get_all_records (add_record
      \<lparr>records = [(str ''Anna'', \<lparr>name = \<lparr>value' = str ''Anna''\<rparr>,
                                  phones = [\<lparr>value' = str ''0501234567''\<rparr>],
                                  birthday = Some \<lparr>value' = str ''29.02.2024''\<rparr>\<rparr>),
                  (str ''Bob'', \<lparr>name = \<lparr>value' = str ''Bob''\<rparr>, phones = [], birthday = None\<rparr>)]\<rparr>
      \<lparr>name = \<lparr>value' = str ''Anna''\<rparr>, phones = [], birthday = None\<rparr>)
     = [\<lparr>name = \<lparr>value' = str ''Anna''\<rparr>, phones = [], birthday = None\<rparr>,
        \<lparr>name = \<lparr>value' = str ''Bob''\<rparr>, phones = [], birthday = None\<rparr>] \<and>
   Phone_init (str ''0509999999'') = Inr \<lparr>value' = str ''0509999999''\<rparr> \<and>
   add_contact [str ''Anna'', str ''0509999999'']
      \<lparr>records = [(str ''Anna'', \<lparr>name = \<lparr>value' = str ''Anna''\<rparr>,
                                  phones = [\<lparr>value' = str ''0501234567''\<rparr>],
                                  birthday = Some \<lparr>value' = str ''29.02.2024''\<rparr>\<rparr>),
                  (str ''Bob'', \<lparr>name = \<lparr>value' = str ''Bob''\<rparr>, phones = [], birthday = None\<rparr>)]\<rparr>
     = (str ''Contact updated.'',
        \<lparr>records = [(str ''Anna'', \<lparr>name = \<lparr>value' = str ''Anna''\<rparr>,
                                    phones = [\<lparr>value' = str ''0501234567''\<rparr>,
                                              \<lparr>value' = str ''0509999999''\<rparr>],
                                    birthday = Some \<lparr>value' = str ''29.02.2024''\<rparr>\<rparr>),
                    (str ''Bob'', \<lparr>name = \<lparr>value' = str ''Bob''\<rparr>, phones = [], birthday = None\<rparr>)]\<rparr>)"
proof -
  let ?anna = "\<lparr>name = \<lparr>value' = str ''Anna''\<rparr>, phones = [\<lparr>value' = str ''0501234567''\<rparr>],
                birthday = Some \<lparr>value' = str ''29.02.2024''\<rparr>\<rparr>"
  let ?bob = "\<lparr>name = \<lparr>value' = str ''Bob''\<rparr>, phones = [], birthday = None\<rparr>"
  let ?new = "\<lparr>name = \<lparr>value' = str ''Anna''\<rparr>, phones = [], birthday = None\<rparr>"
  let ?book = "\<lparr>records = [(str ''Anna'', ?anna), (str ''Bob'', ?bob)]\<rparr>"
  have ne: "str ''Anna'' \<noteq> str ''Bob''" "str ''Bob'' \<noteq> str ''Anna''"
    by (simp_all add: str_def ord_def)
  have d: "distinct (map fst (records ?book))"
    using ne by simp
  have k: "value' (name ?new) \<in> fst ` set (records ?book)"
    by simp
  have f: "find' ?book (str ''Anna'') = Some ?anna"
    by (simp add: find'_def dict_get_def)
  have p: "Phone_init (str ''0509999999'') = Inr \<lparr>value' = str ''0509999999''\<rparr>"
    by (simp add: Phone_init_cases digit_eval)
  note t = add_record_replaces_add_contact_appends
    [OF d, of ?new "str ''Anna''" "str ''0509999999''" "[]"]
  from t k have r: "records (add_record ?book ?new)
      = map (\<lambda>e. if fst e = value' (name ?new) then (fst e, ?new) else e) (records ?book)"
    by blast
  from t k have g: "get_all_records (add_record ?book ?new)
      = map (\<lambda>e. if fst e = value' (name ?new) then ?new else snd e) (records ?book)"
    by blast
  from t f p have a: "add_contact [str ''Anna'', str ''0509999999''] ?book
      = (str ''Contact updated.'',
         ?book\<lparr>records := map (\<lambda>e. if fst e = str ''Anna''
                                    then (fst e, ?anna\<lparr>phones := phones ?anna @ [\<lparr>value' = str ''0509999999''\<rparr>]\<rparr>)
                                    else e) (records ?book)\<rparr>)"
    by blast
  show ?thesis
    unfolding r g a using d p ne by simp
qed

section \<open>Changing a phone\<close>

lemma change_first_None_iff:
  "change_first old_phone new_phone ps = None \<longleftrightarrow> old_phone \<notin> value' ` set ps"
  by (induction ps) (auto split: option.splits)

lemma change_contact_old_absent:
  "find' book n = Some record \<Longrightarrow> old_phone \<notin> value' ` set (phones record) \<Longrightarrow>
   change_contact (n # old_phone # new_phone # rest) book
     = (str ''Old phone number not found.'', book)"
  by (simp add: change_contact_def input_error_def change_first_None_iff [THEN iffD2])

text \<open>
  C4. The claim asks for the new text to be validated by the Phone constructor before
  it replaces the old one, as \<^verbatim>\<open>add_phone\<close> validates. \<^verbatim>\<open>change_contact\<close> constructs no
  Phone: whenever the record has a phone equal to the old text, it answers that the
  phone number was updated and stores the phones with the new text, whatever it is, at
  the place of the first such phone. For the record of Anna with the one phone
  "0501234567", changing it to "x", which the Phone constructor rejects, leaves "x" as
  Anna's phone.
\<close>

theorem change_contact_no_validation:
  "find' book n = Some record \<Longrightarrow> change_first old_phone new_phone (phones record) = Some ps \<Longrightarrow>
   change_contact (n # old_phone # new_phone # rest) book
     = (str ''Phone number updated for '' @ n @ str ''.'',
        store_record book n (record\<lparr>phones := ps\<rparr>))"
  by (simp add: change_contact_def input_error_def)

theorem change_contact_no_validation_witness:
  "Phone_init (str ''x'') = Inl (ValueError (str ''Phone number must be 10 digits.'')) \<and>
   change_contact [str ''Anna'', str ''0501234567'', str ''x'']
       \<lparr>records = [(str ''Anna'', \<lparr>name = \<lparr>value' = str ''Anna''\<rparr>,
                                   phones = [\<lparr>value' = str ''0501234567''\<rparr>], birthday = None\<rparr>)]\<rparr>
     = (str ''Phone number updated for Anna.'',
        \<lparr>records = [(str ''Anna'', \<lparr>name = \<lparr>value' = str ''Anna''\<rparr>,
                                    phones = [\<lparr>value' = str ''x''\<rparr>], birthday = None\<rparr>)]\<rparr>)"
  using change_contact_no_validation
    [of "\<lparr>records = [(str ''Anna'', \<lparr>name = \<lparr>value' = str ''Anna''\<rparr>,
                                   phones = [\<lparr>value' = str ''0501234567''\<rparr>], birthday = None\<rparr>)]\<rparr>"
        "str ''Anna''"
        "\<lparr>name = \<lparr>value' = str ''Anna''\<rparr>, phones = [\<lparr>value' = str ''0501234567''\<rparr>],
           birthday = None\<rparr>"
        "str ''0501234567''" "str ''x''" "[\<lparr>value' = str ''x''\<rparr>]" "[]"]
  by (simp add: Phone_init_def isdigit_def find'_def dict_get_def store_record_def)
     (simp add: str_def)

section \<open>A failed add-contact\<close>

text \<open>
  C5. The claim asks for a command that fails validation to leave the book as it was.
  \<^verbatim>\<open>add_contact\<close> with a name that has no record stores the new record before it
  validates the phone: when the Phone constructor rejects the phone, the answer is the
  text of the ValueError and the book has gained a record of that name without phones.
  On the empty book, the name Bob and the phone "123" leave a record of Bob.
\<close>

theorem add_contact_invalid_phone_keeps_new_record:
  "find' book n = None \<Longrightarrow> phone \<noteq> [] \<Longrightarrow> Phone_init phone = Inl e \<Longrightarrow>
   add_contact (n # phone # rest) book
     = (str_exn e, add_record book \<lparr>name = \<lparr>value' = n\<rparr>, phones = [], birthday = None\<rparr>)"
  by (simp add: add_contact_def input_error_def Record_init_def Name_init_def Field_init_def
        add_contact_phone_def Record_add_phone_def)

theorem add_contact_invalid_phone_keeps_new_record_witness:
  "find' AddressBook_init (str ''Bob'') = None \<and>
   Phone_init (str ''123'') = Inl (ValueError (str ''Phone number must be 10 digits.'')) \<and>
   add_contact [str ''Bob'', str ''123''] AddressBook_init
     = (str ''Phone number must be 10 digits.'',
        \<lparr>records = [(str ''Bob'', \<lparr>name = \<lparr>value' = str ''Bob''\<rparr>, phones = [], birthday = None\<rparr>)]\<rparr>)"
proof -
  have f: "find' AddressBook_init (str ''Bob'') = None"
    by (simp add: find'_def dict_get_def AddressBook_init_def)
  have n: "str ''123'' \<noteq> []"
    by (simp add: str_def)
  have p: "Phone_init (str ''123'') = Inl (ValueError (str ''Phone number must be 10 digits.''))"
    by (simp add: Phone_init_cases) (simp add: str_def)
  from add_contact_invalid_phone_keeps_new_record [OF f n p, of "[]"] f p show ?thesis
    by (simp add: add_record_def AddressBook_init_def)
qed

section \<open>Upcoming birthdays\<close>

lemma strptime_1990:
  "strptime (str ''15.03.1990'') = Some \<lparr>ordinal = ymd2ord 1990 3 15, micros = 0\<rparr>"
  by (simp add: strptime_eval)

text \<open>
  C6. The claim asks for the birthday's day and month to be taken in the year of
  today. \<^verbatim>\<open>birthdays\<close> compares the stored date, with its own year, against the week
  that starts now: a record whose stored date is before today is not listed, whatever
  its day and month. On 14 March 2024 at noon, the book in which Anna's birthday is
  "15.03.1990" gives "No birthdays in the next week.", although 15 March 2024 lies in
  the week from 14 March 2024 to 21 March 2024.
\<close>

theorem birthdays_compares_stored_year:
  "birthday record = Some b \<Longrightarrow> strptime (value' b) = Some d \<Longrightarrow> \<not> dt_le today d \<Longrightarrow>
   add_days today 7 = Inr next_week \<Longrightarrow>
   birthdays libmsg today args \<lparr>records = [(key, record)]\<rparr>
     = (str ''No birthdays in the next week.'', \<lparr>records = [(key, record)]\<rparr>)"
  by (simp add: birthdays_def birthdays_body_def input_error_def get_all_records_def)

theorem birthdays_compares_stored_year_witness:
  "Birthday_init (str ''15.03.1990'') = Inr \<lparr>value' = str ''15.03.1990''\<rparr> \<and>
   strptime (str ''15.03.1990'') = Some (mk_datetime 1990 3 15 0 0 0 0) \<and>
   \<not> dt_le (mk_datetime 2024 3 14 12 0 0 0) (mk_datetime 1990 3 15 0 0 0 0) \<and>
   add_days (mk_datetime 2024 3 14 12 0 0 0) 7 = Inr (mk_datetime 2024 3 21 12 0 0 0) \<and>
   dt_le (mk_datetime 2024 3 14 12 0 0 0) (mk_datetime 2024 3 15 0 0 0 0) \<and>
   dt_le (mk_datetime 2024 3 15 0 0 0 0) (mk_datetime 2024 3 21 12 0 0 0) \<and>
   birthdays (\<lambda>text. text) (mk_datetime 2024 3 14 12 0 0 0) []
       \<lparr>records = [(str ''Anna'', \<lparr>name = \<lparr>value' = str ''Anna''\<rparr>, phones = [],
                                   birthday = Some \<lparr>value' = str ''15.03.1990''\<rparr>\<rparr>)]\<rparr>
     = (str ''No birthdays in the next week.'',
        \<lparr>records = [(str ''Anna'', \<lparr>name = \<lparr>value' = str ''Anna''\<rparr>, phones = [],
                                    birthday = Some \<lparr>value' = str ''15.03.1990''\<rparr>\<rparr>)]\<rparr>)"
proof -
  have s: "strptime (str ''15.03.1990'') = Some (mk_datetime 1990 3 15 0 0 0 0)"
    by (simp add: strptime_1990 mk_datetime_def)
  have b: "Birthday_init (str ''15.03.1990'') = Inr \<lparr>value' = str ''15.03.1990''\<rparr>"
    by (simp add: Birthday_init_def s Field_init_def)
  have n: "\<not> dt_le (mk_datetime 2024 3 14 12 0 0 0) (mk_datetime 1990 3 15 0 0 0 0)"
    by (simp add: dt_le_def mk_datetime_def ymd2ord_def days_before_year_def
          days_before_month_def DAYS_BEFORE_MONTH_def is_leap_def)
  have a: "add_days (mk_datetime 2024 3 14 12 0 0 0) 7 = Inr (mk_datetime 2024 3 21 12 0 0 0)"
    by (simp add: add_days_def mk_datetime_def MAXORDINAL_def ymd2ord_def days_before_year_def
          days_before_month_def DAYS_BEFORE_MONTH_def is_leap_def)
  have w: "dt_le (mk_datetime 2024 3 14 12 0 0 0) (mk_datetime 2024 3 15 0 0 0 0)"
      "dt_le (mk_datetime 2024 3 15 0 0 0 0) (mk_datetime 2024 3 21 12 0 0 0)"
    by (simp_all add: dt_le_def mk_datetime_def ymd2ord_def days_before_year_def
          days_before_month_def DAYS_BEFORE_MONTH_def is_leap_def)
  have r: "birthday \<lparr>name = \<lparr>value' = str ''Anna''\<rparr>, phones = [],
                       birthday = Some \<lparr>value' = str ''15.03.1990''\<rparr>\<rparr>
      = Some \<lparr>value' = str ''15.03.1990''\<rparr>"
    by simp
  have v: "strptime (value' \<lparr>value' = str ''15.03.1990''\<rparr>) = Some (mk_datetime 1990 3 15 0 0 0 0)"
    by (simp add: s)
  note birthdays_compares_stored_year [OF r v n a, of "\<lambda>text. text" "[]" "str ''Anna''"]
  with s b n a w show ?thesis by (intro conjI)
qed

end
